theory Spec2Isabelle
  imports Main "HOL-Library.Multiset"
begin

section \<open>Thrown values and the UserError classes (error/user-error.ts)\<close>

text \<open>
  JavaScript strings are modelled as HOL strings. The two quote characters cannot be
  written inside a HOL string literal, so they get names.
\<close>

definition sq :: char where
  "sq = CHR 0x27"

definition dq :: char where
  "dq = CHR 0x22"

text \<open>The string-literal union \<open>UserErrorCode\<close>: exactly the fifteen codes.\<close>

datatype UserErrorCode =
    SH_001 | SH_002 | SH_003 | SH_004 | SH_005
  | SH_006 | SH_007 | SH_008 | SH_009 | SH_010
  | SH_011 | SH_012 | SH_013 | SH_014 | SH_015


text \<open>
  What a \<open>throw\<close> can carry. \<open>UserError code message\<close> is an instance of the class
  \<open>UserError\<close> (or of one of its subclasses); \<open>Error message\<close> is any other instance of
  \<open>Error\<close> created with \<open>new Error(message)\<close>; \<open>TypeError message\<close> is the built-in
  error of the runtime (also an instance of \<open>Error\<close>); \<open>Value s\<close> is a thrown value that
  is no instance of \<open>Error\<close>, kept as the string \<open>String(value)\<close> gives for it.
\<close>

datatype thrown =
    UserError UserErrorCode string
  | Error string
  | TypeError string
  | Value string

text \<open>The subclasses of \<open>UserError\<close>, each a constructor call \<open>super(code, message)\<close>.\<close>

definition InvalidPathError :: "string \<Rightarrow> string \<Rightarrow> thrown" where
  "InvalidPathError pathAlias path =
     UserError SH_001
       (''invalid path mapping detected: '' @ pathAlias @ '': '' @ path
          @ ''. Please verify that the path exists.'')"












definition PluginNotFoundError :: "string \<Rightarrow> thrown" where
  "PluginNotFoundError pluginName =
     UserError SH_013
       (''Plugin '' @ [sq] @ pluginName @ [sq]
          @ '' not found. Make sure to register the plugin in your sheriff.config.ts plugins array.'')"

definition PluginInvalidError :: "string \<Rightarrow> thrown" where
  "PluginInvalidError details =
     UserError SH_014
       (''Invalid plugin configuration: '' @ details @ ''. Plugins must have a '' @ [sq]
          @ ''name'' @ [sq] @ '' property and an '' @ [sq] @ ''execute'' @ [sq] @ '' method.'')"

text \<open>
  \<open>PluginExecutionError(pluginName, originalError)\<close>: the caller passes the caught
  value itself when it is an \<open>Error\<close> and \<open>String(value)\<close> otherwise, and the
  constructor takes \<open>originalError.message\<close> in the first case and the string in the
  second. \<open>thrown_text\<close> is that text.
\<close>

fun thrown_text :: "thrown \<Rightarrow> string" where
  "thrown_text (UserError code message) = message"
| "thrown_text (Error message) = message"
| "thrown_text (TypeError message) = message"
| "thrown_text (Value s) = s"

definition PluginExecutionError :: "string \<Rightarrow> thrown \<Rightarrow> thrown" where
  "PluginExecutionError pluginName originalError =
     UserError SH_015
       (''Plugin '' @ [sq] @ pluginName @ [sq] @ '' failed during execution: ''
          @ thrown_text originalError)"




section \<open>The command line's effects and handleError (cli/internal/handle-error.ts)\<close>

text \<open>
  The module \<open>cli\<close> is the command line's only way to the outside: \<open>cli.log\<close> writes a
  line to stdout, \<open>cli.logError\<close> a line to stderr, \<open>cli.endProcessOk\<close> and
  \<open>cli.endProcessError\<close> end the process with the success and the error status. A run
  is modelled by the list of these calls in the order they happen; a piece of code
  takes the calls made so far and returns them extended.
\<close>

datatype event =
    Log string
  | LogError string
  | EndProcessOk
  | EndProcessError

type_synonym trace = "event list"

definition log :: "string \<Rightarrow> trace \<Rightarrow> trace" where
  "log message t = t @ [Log message]"

definition logError :: "string \<Rightarrow> trace \<Rightarrow> trace" where
  "logError message t = t @ [LogError message]"

definition endProcessOk :: "trace \<Rightarrow> trace" where
  "endProcessOk t = t @ [EndProcessOk]"

definition endProcessError :: "trace \<Rightarrow> trace" where
  "endProcessError t = t @ [EndProcessError]"

text \<open>
  How a call ends: it returns, it throws a value, or it never comes back (it loops,
  the process ends inside it, or, for an asynchronous function, its promise never
  settles). A thunk \<open>() => void\<close> (or \<open>() => Promise<void>\<close>, seen at the point where it is
  awaited) maps the trace so far to its completion and the trace it leaves.
\<close>

datatype completion =
    Returns
  | Throws thrown
  | NoReturn

type_synonym thunk = "trace \<Rightarrow> completion \<times> trace"

fun handleErrorOutput :: "thrown \<Rightarrow> trace \<Rightarrow> trace" where
  "handleErrorOutput (UserError code message) t = logError message t"
| "handleErrorOutput (Error message) t = logError message t"
| "handleErrorOutput (TypeError message) t = logError message t"
| "handleErrorOutput (Value s) t = logError s t"

definition handleError :: "thunk \<Rightarrow> thunk" where
  "handleError fn t =
     (case fn t of
        (Returns, t1) \<Rightarrow> (Returns, endProcessOk t1)
      | (Throws error, t1) \<Rightarrow> (Returns, endProcessError (handleErrorOutput error t1))
      | (NoReturn, t1) \<Rightarrow> (NoReturn, t1))"

definition handleErrorAsync :: "thunk \<Rightarrow> thunk" where
  "handleErrorAsync fn t =
     (case fn t of
        (Returns, t1) \<Rightarrow> (Returns, endProcessOk t1)
      | (Throws error, t1) \<Rightarrow> (Returns, endProcessError (handleErrorOutput error t1))
      | (NoReturn, t1) \<Rightarrow> (NoReturn, t1))"

text \<open>Thunks of the test file handle-error.spec.ts.\<close>

definition thunk_increment :: thunk where
  "thunk_increment t = (Returns, t)"

definition thunk_throw_invalid_path :: thunk where
  "thunk_throw_invalid_path t = (Throws (InvalidPathError ''sheriff'' ''src/main.ts''), t)"

definition thunk_throw_string :: thunk where
  "thunk_throw_string t = (Throws (Value ''nix geht''), t)"

section \<open>Plugins (plugin/plugin.ts, plugin/plugin-resolver.ts, cli/plugin-command.ts)\<close>

text \<open>
  \<open>String.prototype.trim\<close> removes white space and line terminators from both ends. A
  HOL character stands for a code unit below 256, so the white space that can occur is
  TAB, LF, VT, FF, CR, SPACE and the no-break space.
\<close>

definition isWhiteSpace :: "char \<Rightarrow> bool" where
  "isWhiteSpace c =
     (c = CHR 0x09 \<or> c = CHR 0x0A \<or> c = CHR 0x0B \<or> c = CHR 0x0C \<or> c = CHR 0x0D
        \<or> c = CHR 0x20 \<or> c = CHR 0xA0)"

definition trim :: "string \<Rightarrow> string" where
  "trim s = rev (dropWhile isWhiteSpace (rev (dropWhile isWhiteSpace s)))"

text \<open>
  A plugin as the code looks at it. The registered plugins are objects, as the type
  \<open>SheriffPlugin[]\<close> says, so the first check of \<open>validatePlugin\<close> (not an object) never
  fires on them; their properties can be malformed, as in the tests. \<open>name\<close> is
  \<open>StringValue s\<close> when the property is the string \<open>s\<close> and \<open>OtherValue shown\<close> when it is
  anything else, \<open>shown\<close> being the text string interpolation gives for the value
  (\<open>undefined\<close> for a missing property). \<open>execute\<close> is \<open>Some f\<close> when the property is a
  function. The function gets the arguments of the command line (and the plugin API,
  which it reaches through the trace) and is awaited by its caller.
\<close>

datatype property =
    StringValue string
  | OtherValue string

record SheriffPlugin =
  name :: property
  description :: "string option"
  execute :: "(string list \<Rightarrow> thunk) option"

definition validatePlugin :: "SheriffPlugin \<Rightarrow> thrown + unit" where
  "validatePlugin plugin =
     (if (case name plugin of OtherValue shown \<Rightarrow> True | StringValue s \<Rightarrow> trim s = []) then
        Inl (PluginInvalidError
               (''Plugin is missing a valid '' @ [sq] @ ''name'' @ [sq] @ '' property''))
      else if execute plugin = None then
        Inl (PluginInvalidError
               (''Plugin is missing an '' @ [sq] @ ''execute'' @ [sq] @ '' method''))
      else Inr ())"

text \<open>
  \<open>findPluginByName\<close>: the callback of \<open>find\<close> validates each plugin and compares the
  name in both branches of its \<open>try\<close>. \<open>plugins\<close> may be \<open>undefined\<close>.
\<close>

definition findPluginByName ::
  "string \<Rightarrow> SheriffPlugin list option \<Rightarrow> thrown + SheriffPlugin" where
  "findPluginByName pluginName plugins =
     (case plugins of
        None \<Rightarrow> Inl (PluginNotFoundError pluginName)
      | Some [] \<Rightarrow> Inl (PluginNotFoundError pluginName)
      | Some ps \<Rightarrow>
          (case find (\<lambda>p. case validatePlugin p of
                              Inr u \<Rightarrow> name p = StringValue pluginName
                            | Inl e \<Rightarrow> name p = StringValue pluginName) ps of
             None \<Rightarrow> Inl (PluginNotFoundError pluginName)
           | Some plugin \<Rightarrow>
               (case validatePlugin plugin of
                  Inl e \<Rightarrow> Inl e
                | Inr u \<Rightarrow> Inr plugin)))"

text \<open>
  \<open>executePlugin\<close>: find, validate again, then \<open>await plugin.execute(args, api)\<close> inside a
  \<open>try\<close> whose \<open>catch\<close> wraps whatever was thrown in a \<open>PluginExecutionError\<close>.
\<close>

definition executePlugin ::
  "string \<Rightarrow> string list \<Rightarrow> SheriffPlugin list option \<Rightarrow> thunk" where
  "executePlugin pluginName args plugins t =
     (case findPluginByName pluginName plugins of
        Inl e \<Rightarrow> (Throws e, t)
      | Inr plugin \<Rightarrow>
          (case validatePlugin plugin of
             Inl e \<Rightarrow> (Throws e, t)
           | Inr u \<Rightarrow>
               (case execute plugin of
                  None \<Rightarrow>
                    (Throws (PluginExecutionError pluginName
                               (TypeError ''plugin.execute is not a function'')), t)
                | Some f \<Rightarrow>
                    (case f args t of
                       (Throws error, t1) \<Rightarrow>
                         (Throws (PluginExecutionError pluginName error), t1)
                     | (Returns, t1) \<Rightarrow> (Returns, t1)
                     | (NoReturn, t1) \<Rightarrow> (NoReturn, t1)))))"

section \<open>The entry point of the command line (cli/main.ts)\<close>

text \<open>
  What \<open>main\<close> imports from files that are not modelled here: the version of the
  package, \<open>cli.bold\<close>, the five built-in commands (each a thunk, \<open>verify\<close>, \<open>list\<close> and
  \<open>exportData\<close> after they got the remaining arguments), and the list \<open>getPlugins()\<close>
  returns.
\<close>

record main_env =
  packageVersion :: string
  bold :: "string \<Rightarrow> string"
  init_command :: thunk
  verify_command :: "string list \<Rightarrow> thunk"
  list_command :: "string list \<Rightarrow> thunk"
  exportData_command :: "string list \<Rightarrow> thunk"
  version_command :: thunk
  getPlugins :: "SheriffPlugin list"

definition BUILTIN_COMMANDS :: "string set" where
  "BUILTIN_COMMANDS = {''init'', ''verify'', ''list'', ''export'', ''version''}"

definition isBuiltinCommand :: "string option \<Rightarrow> bool" where
  "isBuiltinCommand cmd = (case cmd of None \<Rightarrow> False | Some c \<Rightarrow> c \<in> BUILTIN_COMMANDS)"

definition plugin_help_line :: "SheriffPlugin \<Rightarrow> string" where
  "plugin_help_line plugin =
     ''  sheriff '' @ (case name plugin of StringValue n \<Rightarrow> n | OtherValue shown \<Rightarrow> shown)
        @ (case description plugin of
             None \<Rightarrow> []
           | Some d \<Rightarrow> if d = [] then [] else '': '' @ d)"

definition showHelp :: "main_env \<Rightarrow> SheriffPlugin list \<Rightarrow> trace \<Rightarrow> trace" where
  "showHelp env plugins t =
     (let t1 = log (bold env (''Sheriff ('' @ packageVersion env
                      @ '') - Modularity for TypeScript Projects'')) t;
          t2 = log [] t1;
          t3 = log ''Commands:'' t2;
          t4 = log (''  sheriff export [main.ts]: Exports the project'' @ [sq]
                      @ ''s, along its dependencies and modules in json.'') t3;
          t5 = log ''  sheriff init [main.ts]: initializes Sheriff by adding a sheriff.config.ts.'' t4;
          t6 = log ''  sheriff list [main.ts]: lists the current modules of the project.'' t5;
          t7 = log ''  sheriff verify [main.ts]: runs the verification process for the project.'' t6;
          t8 = log ''  sheriff version: prints out the current version.'' t7;
          t9 = (if length plugins > 0 then
                  fold (\<lambda>plugin. log (plugin_help_line plugin)) plugins
                    (log ''Plugins:'' (log [] t8))
                else t8);
          t10 = log [] t9;
          t11 = log (''[main.ts] is optional if a sheriff.config.ts with an entryFile ''
                       @ ''property is in the current path.'') t10
      in log ''For more information, visit: https://github.com/softarc-consulting/sheriff'' t11)"

definition handlePluginOrHelp ::
  "main_env \<Rightarrow> string option \<Rightarrow> string list \<Rightarrow> SheriffPlugin list \<Rightarrow> thunk" where
  "handlePluginOrHelp env cmd args plugins t =
     (case cmd of
        None \<Rightarrow> (Returns, showHelp env plugins t)
      | Some c \<Rightarrow>
          (case find (\<lambda>p. name p = StringValue c) plugins of
             Some matchingPlugin \<Rightarrow> executePlugin c args (Some plugins) t
           | None \<Rightarrow> (Returns, showHelp env plugins t)))"

text \<open>
  \<open>main(...argv)\<close>. The destructuring \<open>[cmd, ...args] = argv\<close> leaves \<open>cmd\<close> undefined and
  \<open>args\<close> empty for an empty list. The asynchronous branch is not awaited by \<open>main\<close>; the
  trace is the one the run has produced once the promise has settled.
\<close>

definition main :: "main_env \<Rightarrow> string list \<Rightarrow> thunk" where
  "main env argv t =
     (let cmd = (case argv of [] \<Rightarrow> None | c # rest \<Rightarrow> Some c);
          args = (case argv of [] \<Rightarrow> [] | c # rest \<Rightarrow> rest)
      in if isBuiltinCommand cmd then
           (if cmd = Some ''init'' then handleError (init_command env) t
            else if cmd = Some ''verify'' then handleError (verify_command env args) t
            else if cmd = Some ''list'' then handleError (list_command env args) t
            else if cmd = Some ''export'' then handleError (exportData_command env args) t
            else if cmd = Some ''version'' then version_command env t
            else (Returns, t))
         else
           (let plugins = getPlugins env
            in handleErrorAsync (handlePluginOrHelp env cmd args plugins) t))"

text \<open>Plugins and an environment of the tests in main.spec.ts.\<close>

definition marking_execute :: "string list \<Rightarrow> thunk" where
  "marking_execute args t = (Returns, log ''plugin executed'' t)"

definition plugin_named :: "string \<Rightarrow> (string list \<Rightarrow> thunk) \<Rightarrow> SheriffPlugin" where
  "plugin_named n f = \<lparr>name = StringValue n, description = None, execute = Some f\<rparr>"

definition test_env :: "SheriffPlugin list \<Rightarrow> main_env" where
  "test_env plugins =
     \<lparr>packageVersion = ''0.0.1'',
      bold = (\<lambda>s. s),
      init_command = (\<lambda>t. (Returns, log ''init'' t)),
      verify_command = (\<lambda>args t. (Returns, log ''No issues found'' t)),
      list_command = (\<lambda>args t. (Returns, log ''list'' t)),
      exportData_command = (\<lambda>args t. (Returns, log ''export'' t)),
      version_command = (\<lambda>t. (Returns, log ''0.0.1'' t)),
      getPlugins = plugins\<rparr>"

section \<open>Entry resolution (cli/internal/get-entry-from-cli-or-config.ts)\<close>

text \<open>
  A \<open>Record<string, string>\<close> is the list of its own properties, keys distinct, in the
  order in which they were created, which for an object literal and for \<open>JSON.parse\<close> is
  the order of the declaration. An entry argument is a string or such a record.
\<close>

type_synonym string_record = "(string \<times> string) list"

datatype StringOrRecord =
    Str string
  | Rec string_record

text \<open>
  \<open>Object.entries\<close> and \<open>Object.keys\<close> do not enumerate in creation order: the keys that
  are array indices (the canonical decimal text of an integer from 0 to 4294967294, so
  no sign, no leading zero) come first in ascending numeric order, the other keys
  follow in creation order.
\<close>

definition is_digit :: "char \<Rightarrow> bool" where
  "is_digit c = (c \<in> set ''0123456789'')"

definition digit_value :: "char \<Rightarrow> nat" where
  "digit_value c = of_char c - 48"

definition decimal_value :: "string \<Rightarrow> nat" where
  "decimal_value s = foldl (\<lambda>n c. 10 * n + digit_value c) 0 s"

definition is_array_index :: "string \<Rightarrow> bool" where
  "is_array_index s =
     (s \<noteq> [] \<and> list_all is_digit s \<and> (s = ''0'' \<or> hd s \<noteq> CHR ''0'')
        \<and> decimal_value s < 4294967295)"

definition Object_entries :: "string_record \<Rightarrow> (string \<times> string) list" where
  "Object_entries r =
     sort_key (\<lambda>kv. decimal_value (fst kv)) (filter (\<lambda>kv. is_array_index (fst kv)) r)
       @ filter (\<lambda>kv. \<not> is_array_index (fst kv)) r"

definition Object_keys :: "string_record \<Rightarrow> string list" where
  "Object_keys r = map fst (Object_entries r)"

text \<open>
  The fields of \<open>Configuration\<close> (config/configuration.ts) that the code below reads.
  \<open>entryFile\<close> is a required string (empty when the user gave none); \<open>entryPoints\<close> and
  \<open>plugins\<close> are optional, \<open>None\<close> is \<open>undefined\<close>.
\<close>

record Configuration =
  entryFile :: string
  entryPoints :: "string_record option"
  plugins :: "SheriffPlugin list option"

text \<open>
  \<open>ProjectEntry<TEntry>\<close>: with \<open>runInit\<close> the entry is the \<open>ProjectInfo\<close> that \<open>init\<close> built
  (a type parameter here, its class is not modelled), without it the entry is the path
  as given.
\<close>

datatype 'pi Entry =
    Path string
  | Info 'pi

record 'pi ProjectEntry =
  projectName :: string
  entry :: "'pi Entry"

definition DEFAULT_PROJECT_NAME :: string where
  "DEFAULT_PROJECT_NAME = ''default''"

text \<open>
  The file system \<open>getFs()\<close> returns, as far as the code below uses it. \<open>relativeTo\<close>
  takes the base first.
\<close>

record FileSystem =
  cwd :: string
  join :: "string \<Rightarrow> string \<Rightarrow> string"
  fs_exists :: "string \<Rightarrow> bool"
  relativeTo :: "string \<Rightarrow> string \<Rightarrow> string"

text \<open>
  What entry resolution calls in files that are not modelled here: the file system and
  \<open>parseConfig\<close>, \<open>toFsPath\<close> and \<open>init\<close>, which can throw.
\<close>

record 'pi entry_env = FileSystem +
  parseConfig :: "string \<Rightarrow> thrown + Configuration"
  toFsPath :: "string \<Rightarrow> thrown + string"
  init :: "string \<Rightarrow> thrown + 'pi"

text \<open>
  \<open>isEmptyRecord(arg)\<close> is \<open>Object.keys(arg)?.length === 0\<close>; \<open>Object.keys\<close> throws a
  \<open>TypeError\<close> when it gets \<open>undefined\<close>.
\<close>

definition isEmptyRecord :: "string_record option \<Rightarrow> thrown + bool" where
  "isEmptyRecord arg =
     (case arg of
        None \<Rightarrow> Inl (TypeError ''Cannot convert undefined or null to object'')
      | Some r \<Rightarrow> Inr (length (Object_keys r) = 0))"

text \<open>\<open>Array.prototype.map\<close> with a callback that can throw: the first throw ends it.\<close>

fun map_throwing :: "('a \<Rightarrow> thrown + 'b) \<Rightarrow> 'a list \<Rightarrow> thrown + 'b list" where
  "map_throwing f [] = Inr []"
| "map_throwing f (x # xs) =
     (case f x of
        Inl e \<Rightarrow> Inl e
      | Inr y \<Rightarrow> (case map_throwing f xs of Inl e \<Rightarrow> Inl e | Inr ys \<Rightarrow> Inr (y # ys)))"

text \<open>The expression \<open>init(toFsPath(fs.join(fs.cwd(), entry)))\<close>, which occurs twice.\<close>

definition init_entry :: "'pi entry_env \<Rightarrow> string \<Rightarrow> thrown + 'pi" where
  "init_entry env e =
     (case toFsPath env (join env (cwd env) e) of
        Inl err \<Rightarrow> Inl err
      | Inr p \<Rightarrow> init env p)"

definition processEntryFile ::
  "'pi entry_env \<Rightarrow> StringOrRecord \<Rightarrow> bool \<Rightarrow> thrown + 'pi ProjectEntry list" where
  "processEntryFile env entryFileValue runInit =
     (case entryFileValue of
        Str s \<Rightarrow>
          (if runInit then
             (case init_entry env s of
                Inl err \<Rightarrow> Inl err
              | Inr i \<Rightarrow> Inr [\<lparr>projectName = DEFAULT_PROJECT_NAME, entry = Info i\<rparr>])
           else Inr [\<lparr>projectName = DEFAULT_PROJECT_NAME, entry = Path s\<rparr>])
      | Rec r \<Rightarrow>
          (let entries = Object_entries r
           in if runInit then
                map_throwing
                  (\<lambda>(pn, e). case init_entry env e of
                                Inl err \<Rightarrow> Inl err
                              | Inr i \<Rightarrow> Inr \<lparr>projectName = pn, entry = Info i\<rparr>)
                  entries
              else Inr (map (\<lambda>(pn, e). \<lparr>projectName = pn, entry = Path e\<rparr>) entries)))"

text \<open>
  \<open>if (entryFileOrEntryPoints)\<close>: \<open>undefined\<close> and the empty string are falsy, every
  object is truthy, the empty record too.
\<close>

definition truthy_entry :: "StringOrRecord option \<Rightarrow> bool" where
  "truthy_entry v =
     (case v of None \<Rightarrow> False | Some (Str s) \<Rightarrow> s \<noteq> [] | Some (Rec r) \<Rightarrow> True)"

definition both_entries_message :: string where
  "both_entries_message =
     ''Both entry file and entry points found in sheriff.config.ts. Please provide only one option''"

definition no_entries_message :: string where
  "no_entries_message =
     ''No entry file or entry points found in sheriff.config.ts. Please provide the option via the CLI.''"

definition provide_entry_message :: string where
  "provide_entry_message =
     ''Please provide an entry file (e.g. main.ts) or entry points (e.g. { projectName: ''
       @ [dq] @ ''main.ts'' @ [dq] @ '' })''"

text \<open>
  \<open>getEntryFromCliOrConfig\<close> from the statement \<open>const potentialConfigFile = ...\<close> on: what
  it does when no truthy argument was given.
\<close>

definition entryFromConfig ::
  "'pi entry_env \<Rightarrow> bool \<Rightarrow> thrown + 'pi ProjectEntry list" where
  "entryFromConfig env runInit =
     (let potentialConfigFile = join env (cwd env) ''sheriff.config.ts''
      in if fs_exists env potentialConfigFile then
           (case parseConfig env potentialConfigFile of
              Inl err \<Rightarrow> Inl err
            | Inr sheriffConfig \<Rightarrow>
                (case (if entryFile sheriffConfig \<noteq> [] then
                         (case isEmptyRecord (entryPoints sheriffConfig) of
                            Inl err \<Rightarrow> Inl err
                          | Inr b \<Rightarrow> Inr (\<not> b))
                       else Inr False) of
                   Inl err \<Rightarrow> Inl err
                 | Inr True \<Rightarrow> Inl (Error both_entries_message)
                 | Inr False \<Rightarrow>
                     (if entryFile sheriffConfig \<noteq> [] then
                        processEntryFile env (Str (entryFile sheriffConfig)) runInit
                      else
                        (case entryPoints sheriffConfig of
                           None \<Rightarrow> Inl (Error no_entries_message)
                         | Some r \<Rightarrow>
                             (case isEmptyRecord (Some r) of
                                Inl err \<Rightarrow> Inl err
                              | Inr b \<Rightarrow>
                                  if \<not> b then processEntryFile env (Rec r) runInit
                                  else Inl (Error no_entries_message))))))
         else Inl (Error provide_entry_message))"

definition getEntryFromCliOrConfig ::
  "'pi entry_env \<Rightarrow> StringOrRecord option \<Rightarrow> bool \<Rightarrow> thrown + 'pi ProjectEntry list" where
  "getEntryFromCliOrConfig env entryFileOrEntryPoints runInit =
     (case entryFileOrEntryPoints of
        None \<Rightarrow> entryFromConfig env runInit
      | Some v \<Rightarrow>
          if truthy_entry (Some v) then processEntryFile env v runInit
          else entryFromConfig env runInit)"

text \<open>
  The repository also holds the earlier version of the same file, from before entry
  points: it reads \<open>entryFile\<close> only.
\<close>

definition getEntryFromCliOrConfig_earlier ::
  "'pi entry_env \<Rightarrow> StringOrRecord option \<Rightarrow> bool \<Rightarrow> thrown + 'pi ProjectEntry list" where
  "getEntryFromCliOrConfig_earlier env entryFileArg runInit =
     (let from_config =
            (let potentialConfigFile = join env (cwd env) ''sheriff.config.ts''
             in if fs_exists env potentialConfigFile then
                  (case parseConfig env potentialConfigFile of
                     Inl err \<Rightarrow> Inl err
                   | Inr sheriffConfig \<Rightarrow>
                       if entryFile sheriffConfig \<noteq> [] then
                         processEntryFile env (Str (entryFile sheriffConfig)) runInit
                       else
                         Inl (Error (''No entry file found in sheriff.config.ts. ''
                                       @ ''Please provide one via the CLI '')))
                else Inl (Error ''Please provide an entry file, e.g. main.ts''))
      in case entryFileArg of
           None \<Rightarrow> from_config
         | Some v \<Rightarrow>
             if truthy_entry (Some v) then processEntryFile env v runInit else from_config)"

text \<open>
  Environments for concrete runs: the working directory is \<open>/project\<close>, \<open>join\<close> puts a
  slash between its arguments, \<open>relativeTo\<close> removes the base and the slash after it
  from a path below the base, the configuration file exists and parses to the given
  configuration, \<open>toFsPath\<close> accepts every path and \<open>init\<close> returns the path it was given
  as the project's information.
\<close>

definition relative_below :: "string \<Rightarrow> string \<Rightarrow> string" where
  "relative_below base p =
     (if take (length base + 1) p = base @ ''/'' then drop (length base + 1) p else p)"

definition config_env :: "Configuration \<Rightarrow> string entry_env" where
  "config_env c =
     \<lparr>cwd = ''/project'',
      join = (\<lambda>a b. a @ ''/'' @ b),
      fs_exists = (\<lambda>p. p = ''/project/sheriff.config.ts''),
      relativeTo = relative_below,
      parseConfig = (\<lambda>p. Inr c),
      toFsPath = (\<lambda>p. Inr p),
      init = (\<lambda>p. Inr p)\<rparr>"


definition config_entryFile_only :: Configuration where
  "config_entryFile_only =
     \<lparr>entryFile = ''src/main.ts'', entryPoints = None, plugins = None\<rparr>"


definition config_entryPoints_only :: Configuration where
  "config_entryPoints_only =
     \<lparr>entryFile = [],
      entryPoints = Some [(''project-i'', ''projects/project-i/src/main.ts''),
                          (''project-ii'', ''projects/project-ii/src/main.ts'')],
      plugins = None\<rparr>"


section \<open>Parsing the entry argument (cli/internal/parse-string-or-record.ts)\<close>

text \<open>
  The values \<open>JSON.parse\<close> returns. The value of a number is never looked at; it is kept
  as the text of its literal. An object is the list of its properties.
\<close>

datatype json =
    JNull
  | JBool bool
  | JNumber string
  | JString string
  | JArray "json list"
  | JObject "(string \<times> json) list"

text \<open>
  \<open>typeof parsed === 'object' && parsed !== null\<close> holds for arrays and objects;
  \<open>Object.values\<close> lists the elements of an array and the property values of an object;
  \<open>typeof value === 'string'\<close> holds for strings.
\<close>

fun is_object_not_null :: "json \<Rightarrow> bool" where
  "is_object_not_null (JArray xs) = True"
| "is_object_not_null (JObject kvs) = True"
| "is_object_not_null j = False"

fun Object_values :: "json \<Rightarrow> json list" where
  "Object_values (JArray xs) = xs"
| "Object_values (JObject kvs) = map snd kvs"
| "Object_values j = []"

fun is_string :: "json \<Rightarrow> bool" where
  "is_string (JString s) = True"
| "is_string j = False"

definition allValuesAreStrings :: "json \<Rightarrow> bool" where
  "allValuesAreStrings parsed = list_all is_string (Object_values parsed)"

definition startsWith :: "string \<Rightarrow> string \<Rightarrow> bool" where
  "startsWith s p = (take (length p) s = p)"

definition endsWith :: "string \<Rightarrow> string \<Rightarrow> bool" where
  "endsWith s p = (length p \<le> length s \<and> drop (length s - length p) s = p)"

text \<open>\<open>replace(/'/g, '"')\<close>: every single quote becomes a double quote.\<close>

definition replace_single_quotes :: "string \<Rightarrow> string" where
  "replace_single_quotes s = map (\<lambda>c. if c = sq then dq else c) s"

text \<open>
  The result, \<open>string | Record<string, string>\<close>: the input string, or the parsed value
  that the code returns with a cast.
\<close>

datatype StringOrParsed =
    AsString string
  | AsRecord json

text \<open>\<open>try { body } catch (error) { handler }\<close>.\<close>

definition try_catch :: "thrown + 'a \<Rightarrow> (thrown \<Rightarrow> thrown + 'a) \<Rightarrow> thrown + 'a" where
  "try_catch body handler = (case body of Inl error \<Rightarrow> handler error | Inr v \<Rightarrow> Inr v)"

text \<open>
  \<open>parseStringOrRecord\<close>, with \<open>JSON.parse\<close> of the runtime as a parameter (it throws a
  \<open>SyntaxError\<close> on a text that is not JSON). The inner \<open>try\<close> either leaves the function
  with a value (\<open>Some\<close>) or falls through to the second approach (\<open>None\<close>), also when
  \<open>JSON.parse\<close> threw.
\<close>

definition parseStringOrRecord ::
  "(string \<Rightarrow> thrown + json) \<Rightarrow> string \<Rightarrow> thrown + StringOrParsed" where
  "parseStringOrRecord JSON_parse input =
     (let trimmedInput = trim input
      in if startsWith trimmedInput ''{'' \<and> endsWith trimmedInput ''}'' then
           try_catch
             (case try_catch
                     (case JSON_parse trimmedInput of
                        Inl error \<Rightarrow> Inl error
                      | Inr parsed \<Rightarrow>
                          Inr (if is_object_not_null parsed \<and> allValuesAreStrings parsed
                               then Some (AsRecord parsed) else None))
                     (\<lambda>error. Inr None) of
                Inl error \<Rightarrow> Inl error
              | Inr (Some r) \<Rightarrow> Inr r
              | Inr None \<Rightarrow>
                  (let withDoubleQuotes = replace_single_quotes trimmedInput
                   in case JSON_parse withDoubleQuotes of
                        Inl error \<Rightarrow> Inl error
                      | Inr parsed \<Rightarrow>
                          Inr (if is_object_not_null parsed \<and> allValuesAreStrings parsed
                               then AsRecord parsed else AsString input)))
             (\<lambda>error. Inr (AsString input))
         else Inr (AsString input))"

text \<open>
  The parsed value a text is accepted with: \<open>JSON.parse\<close> returns an array or an object
  all of whose values are strings.
\<close>

definition accepted :: "(string \<Rightarrow> thrown + json) \<Rightarrow> string \<Rightarrow> json option" where
  "accepted JSON_parse text =
     (case JSON_parse text of
        Inl error \<Rightarrow> None
      | Inr parsed \<Rightarrow>
          if is_object_not_null parsed \<and> allValuesAreStrings parsed then Some parsed else None)"

text \<open>
  A fragment of \<open>JSON.parse\<close> for concrete runs: it parses the text
  \<open>{"app": "src/main.ts"}\<close> and the text \<open>{"count": 42}\<close>, and throws on every other text.
\<close>

definition app_text :: string where
  "app_text = ''{'' @ [dq] @ ''app'' @ [dq] @ '': '' @ [dq] @ ''src/main.ts'' @ [dq] @ ''}''"

definition count_text :: string where
  "count_text = ''{'' @ [dq] @ ''count'' @ [dq] @ '': 42}''"

definition sample_JSON_parse :: "string \<Rightarrow> thrown + json" where
  "sample_JSON_parse text =
     (if text = app_text then Inr (JObject [(''app'', JString ''src/main.ts'')])
      else if text = count_text then Inr (JObject [(''count'', JNumber ''42'')])
      else Inl (Error ''Unexpected token''))"

definition single_quoted_app_text :: string where
  "single_quoted_app_text =
     '' {'' @ [sq] @ ''app'' @ [sq] @ '': '' @ [sq] @ ''src/main.ts'' @ [sq] @ ''} ''"

section \<open>The plugin API (plugin/plugin-api.ts, plugin/create-plugin-api.ts)\<close>

record DependencyViolationInfo =
  fromTag :: string
  toTags :: "string list"
  rawImport :: string

record FileViolations =
  encapsulationViolations :: "string list"
  dependencyRuleViolations :: "DependencyViolationInfo list"

text \<open>
  The four local variables of \<open>verifyForPlugin\<close>; the counters are numbers that only
  grow by list lengths, natural numbers here. \<open>VerificationResult\<close> has the same four
  fields and \<open>success\<close>.
\<close>

record verify_locals =
  encapsulationViolationCount :: nat
  dependencyRuleViolationCount :: nat
  filesWithViolationsCount :: nat
  violations :: "string \<rightharpoonup> FileViolations"

record VerificationResult = verify_locals +
  success :: bool

text \<open>
  An element of the array \<open>getEntriesFromCliOrConfig(entryFile)\<close> returns: an object
  with \<open>projectName\<close> and \<open>projectInfo\<close>. A field name belongs to one record type, so
  the project name is called \<open>entryProjectName\<close> in this one.
\<close>

record 'pi InfoEntry =
  entryProjectName :: string
  projectInfo :: 'pi

text \<open>
  What \<open>verifyForPlugin\<close> calls in files that are not modelled here. \<open>traverseFileInfo\<close>
  gives the paths \<open>fileInfo.path\<close> of the files that the generator
  \<open>traverseFileInfo(projectInfo.fileInfo)\<close> yields, in its order.
  \<open>hasEncapsulationViolations\<close> gives \<open>Object.keys\<close> of the record the function returns.
  \<open>checkForDependencyRuleViolation\<close> returns violations that have at least the three
  fields of \<open>DependencyViolationInfo\<close>. Entry resolution and the two checks can throw.
\<close>

record ('pi, 'v) verify_env = FileSystem +
  getEntriesFromCliOrConfig :: "string option \<Rightarrow> thrown + 'pi InfoEntry list"
  traverseFileInfo :: "'pi \<Rightarrow> string list"
  hasEncapsulationViolations :: "string \<Rightarrow> 'pi \<Rightarrow> thrown + string list"
  checkForDependencyRuleViolation ::
    "string \<Rightarrow> 'pi \<Rightarrow> thrown + 'v DependencyViolationInfo_scheme list"

definition no_violations :: verify_locals where
  "no_violations =
     \<lparr>encapsulationViolationCount = 0,
      dependencyRuleViolationCount = 0,
      filesWithViolationsCount = 0,
      violations = Map.empty\<rparr>"

text \<open>
  The two checks at the head of the inner loop's body; the second list is the source's
  local variable \<open>dependencyRuleViolations\<close>.
\<close>

definition check_file ::
  "('pi, 'v) verify_env \<Rightarrow> 'pi \<Rightarrow> string
     \<Rightarrow> thrown + (string list \<times> 'v DependencyViolationInfo_scheme list)" where
  "check_file env info p =
     (case hasEncapsulationViolations env p info of
        Inl err \<Rightarrow> Inl err
      | Inr encapsulations \<Rightarrow>
          (case checkForDependencyRuleViolation env p info of
             Inl err \<Rightarrow> Inl err
           | Inr depViolations \<Rightarrow> Inr (encapsulations, depViolations)))"

text \<open>The \<open>if\<close> of the inner loop's body, which updates the local variables.\<close>

definition depViolationInfos ::
  "'v DependencyViolationInfo_scheme list \<Rightarrow> DependencyViolationInfo list" where
  "depViolationInfos depViolations =
     map (\<lambda>v. \<lparr>fromTag = fromTag v, toTags = toTags v, rawImport = rawImport v\<rparr>)
       depViolations"

definition record_file ::
  "('pi, 'v) verify_env \<Rightarrow> string
     \<Rightarrow> string list \<times> 'v DependencyViolationInfo_scheme list
     \<Rightarrow> verify_locals \<Rightarrow> verify_locals" where
  "record_file env p found acc =
     (case found of (encapsulations, depViolations) \<Rightarrow>
        if length encapsulations > 0 \<or> length depViolations > 0 then
          \<lparr>encapsulationViolationCount =
             encapsulationViolationCount acc + length encapsulations,
           dependencyRuleViolationCount =
             dependencyRuleViolationCount acc + length depViolations,
           filesWithViolationsCount = filesWithViolationsCount acc + 1,
           violations =
             (violations acc)
               (relativeTo env (cwd env) p \<mapsto>
                  \<lparr>encapsulationViolations = encapsulations,
                   dependencyRuleViolations = depViolationInfos depViolations\<rparr>)\<rparr>
        else acc)"

text \<open>The inner loop over the files of one project and the outer loop over the entries.\<close>

fun verify_files ::
  "('pi, 'v) verify_env \<Rightarrow> 'pi \<Rightarrow> string list \<Rightarrow> verify_locals
     \<Rightarrow> thrown + verify_locals" where
  "verify_files env info [] acc = Inr acc"
| "verify_files env info (p # ps) acc =
     (case check_file env info p of
        Inl err \<Rightarrow> Inl err
      | Inr found \<Rightarrow> verify_files env info ps (record_file env p found acc))"

fun verify_entries ::
  "('pi, 'v) verify_env \<Rightarrow> 'pi InfoEntry list \<Rightarrow> verify_locals
     \<Rightarrow> thrown + verify_locals" where
  "verify_entries env [] acc = Inr acc"
| "verify_entries env (projectEntry # rest) acc =
     (case verify_files env (projectInfo projectEntry)
             (traverseFileInfo env (projectInfo projectEntry)) acc of
        Inl err \<Rightarrow> Inl err
      | Inr acc' \<Rightarrow> verify_entries env rest acc')"

text \<open>\<open>verifyForPlugin\<close> from its second statement on, for given project entries.\<close>

definition verifyEntries ::
  "('pi, 'v) verify_env \<Rightarrow> 'pi InfoEntry list \<Rightarrow> thrown + VerificationResult" where
  "verifyEntries env projectEntries =
     (case verify_entries env projectEntries no_violations of
        Inl err \<Rightarrow> Inl err
      | Inr acc \<Rightarrow>
          Inr \<lparr>encapsulationViolationCount = encapsulationViolationCount acc,
               dependencyRuleViolationCount = dependencyRuleViolationCount acc,
               filesWithViolationsCount = filesWithViolationsCount acc,
               violations = violations acc,
               success = (encapsulationViolationCount acc = 0
                            \<and> dependencyRuleViolationCount acc = 0)\<rparr>)"

definition verifyForPlugin ::
  "('pi, 'v) verify_env \<Rightarrow> string option \<Rightarrow> thrown + VerificationResult" where
  "verifyForPlugin env entryFileArg =
     (case getEntriesFromCliOrConfig env entryFileArg of
        Inl err \<Rightarrow> Inl err
      | Inr projectEntries \<Rightarrow> verifyEntries env projectEntries)"

text \<open>
  The pairs of project and path that the two loops meet, in their order, and the same
  run over such a list.
\<close>

definition visited :: "('pi, 'v) verify_env \<Rightarrow> 'pi InfoEntry list \<Rightarrow> ('pi \<times> string) list" where
  "visited env projectEntries =
     concat (map (\<lambda>e. map (Pair (projectInfo e)) (traverseFileInfo env (projectInfo e)))
               projectEntries)"

fun verify_pairs ::
  "('pi, 'v) verify_env \<Rightarrow> ('pi \<times> string) list \<Rightarrow> verify_locals
     \<Rightarrow> thrown + verify_locals" where
  "verify_pairs env [] acc = Inr acc"
| "verify_pairs env ((info, p) # rest) acc =
     (case check_file env info p of
        Inl err \<Rightarrow> Inl err
      | Inr found \<Rightarrow> verify_pairs env rest (record_file env p found acc))"

text \<open>
  \<open>getProjectDataForPlugin\<close>. Without \<open>runInit\<close> the entries of
  \<open>getEntriesFromCliOrConfig(entryFile, false)\<close> are objects with \<open>projectName\<close> and
  \<open>entryFile\<close>, called \<open>fileProjectName\<close> and \<open>fileEntryFile\<close> here. \<open>ProjectDataOptions\<close> has
  the optional field \<open>skipImportResolution\<close>; the object passed on to \<open>getProjectData\<close> has
  \<open>projectName\<close> (\<open>dataProjectName\<close> here) before the spread options.
\<close>

record FileEntry =
  fileProjectName :: string
  fileEntryFile :: string

record ProjectDataOptions =
  skipImportResolution :: "bool option"

record GetProjectDataOptions = ProjectDataOptions +
  dataProjectName :: string

record 'pd data_env = FileSystem +
  getEntryFilesFromCliOrConfig :: "string option \<Rightarrow> thrown + FileEntry list"
  getProjectDataFn :: "string \<Rightarrow> GetProjectDataOptions \<Rightarrow> thrown + 'pd"

definition getProjectDataForPlugin ::
  "'pd data_env \<Rightarrow> string option \<Rightarrow> ProjectDataOptions option \<Rightarrow> thrown + 'pd" where
  "getProjectDataForPlugin env entryFileArg options =
     (case getEntryFilesFromCliOrConfig env entryFileArg of
        Inl err \<Rightarrow> Inl err
      | Inr projectEntries \<Rightarrow>
          (case projectEntries of
             [] \<Rightarrow>
               Inl (TypeError (''Cannot read properties of undefined (reading '' @ [sq]
                                 @ ''entryFile'' @ [sq] @ '')''))
           | e # others \<Rightarrow>
               (let absolutePath = join env (cwd env) (fileEntryFile e)
                in getProjectDataFn env absolutePath
                     \<lparr>skipImportResolution =
                        (case options of None \<Rightarrow> None | Some opts \<Rightarrow> skipImportResolution opts),
                      dataProjectName = fileProjectName e\<rparr>)))"

text \<open>
  Helpers for stating properties: what one run adds to the local variables put on top
  of another run's (later entries of the violation record win), the violation record
  of a result at a key, and two environments. The project of \<open>scenario_env\<close> is the one
  of the tests: \<open>main.ts\<close> imports the modules \<open>holidays\<close> and \<open>customers\<close>, and
  \<open>holidays.component.ts\<close> imports \<open>../customers\<close>, which the rules forbid. In
  \<open>shared_env\<close> two entry points reach the same file \<open>libs/shared/util.ts\<close>, whose import
  \<open>../feature/internal/x\<close> is a deep import in the first project only.
\<close>

definition merge_locals :: "verify_locals \<Rightarrow> verify_locals \<Rightarrow> verify_locals" where
  "merge_locals a b =
     \<lparr>encapsulationViolationCount =
        encapsulationViolationCount a + encapsulationViolationCount b,
      dependencyRuleViolationCount =
        dependencyRuleViolationCount a + dependencyRuleViolationCount b,
      filesWithViolationsCount = filesWithViolationsCount a + filesWithViolationsCount b,
      violations = violations a ++ violations b\<rparr>"

definition violations_at :: "thrown + VerificationResult \<Rightarrow> string \<Rightarrow> FileViolations option" where
  "violations_at result k = (case result of Inl err \<Rightarrow> None | Inr r \<Rightarrow> violations r k)"

definition project_fs :: FileSystem where
  "project_fs =
     \<lparr>cwd = ''/project'',
      join = (\<lambda>a b. a @ ''/'' @ b),
      fs_exists = (\<lambda>p. True),
      relativeTo = relative_below\<rparr>"

definition scenario_env :: "(string, unit) verify_env" where
  "scenario_env =
     FileSystem.extend project_fs
       (verify_env.fields
          (\<lambda>arg. Inr [\<lparr>entryProjectName = ''default'', projectInfo = ''src/main.ts''\<rparr>])
          (\<lambda>info. [''/project/src/main.ts'', ''/project/src/holidays/index.ts'',
                    ''/project/src/holidays/holidays.component.ts'',
                    ''/project/src/customers/index.ts''])
          (\<lambda>p info. Inr [])
          (\<lambda>p info.
             if p = ''/project/src/holidays/holidays.component.ts''
             then Inr [\<lparr>fromTag = ''holidays'', toTags = [''customers''],
                         rawImport = ''../customers''\<rparr>]
             else Inr []))"

definition clean_env :: "(string, unit) verify_env" where
  "clean_env = scenario_env\<lparr>checkForDependencyRuleViolation := (\<lambda>p info. Inr [])\<rparr>"

definition entry_a :: "string InfoEntry" where
  "entry_a = \<lparr>entryProjectName = ''app-a'', projectInfo = ''app-a''\<rparr>"

definition entry_b :: "string InfoEntry" where
  "entry_b = \<lparr>entryProjectName = ''app-b'', projectInfo = ''app-b''\<rparr>"

definition shared_env :: "(string, unit) verify_env" where
  "shared_env =
     FileSystem.extend project_fs
       (verify_env.fields
          (\<lambda>arg. Inr [entry_a, entry_b])
          (\<lambda>info. if info = ''app-a''
                   then [''/project/apps/a/main.ts'', ''/project/libs/shared/util.ts'']
                   else [''/project/apps/b/main.ts'', ''/project/libs/shared/util.ts''])
          (\<lambda>p info. if p = ''/project/libs/shared/util.ts'' \<and> info = ''app-a''
                     then Inr [''../feature/internal/x''] else Inr [])
          (\<lambda>p info. Inr []))"


definition isolated_env :: "(string, unit) verify_env" where
  "isolated_env =
     shared_env\<lparr>traverseFileInfo :=
       (\<lambda>info. if info = ''app-a''
                then [''/project/apps/a/main.ts'', ''/project/apps/a/util.ts'']
                else [''/project/apps/b/main.ts'', ''/project/apps/b/util.ts'']),
       hasEncapsulationViolations :=
       (\<lambda>p info. if p = ''/project/apps/a/util.ts''
                  then Inr [''../feature/internal/x''] else Inr [])\<rparr>"

definition data_env_of :: "FileEntry list \<Rightarrow> (string \<times> GetProjectDataOptions) data_env" where
  "data_env_of entries =
     FileSystem.extend project_fs
       (data_env.fields (\<lambda>arg. Inr entries) (\<lambda>p opts. Inr (p, opts)))"

section \<open>Properties of handleError\<close>

lemma handleErrorOutput_thrown_text:
  "handleErrorOutput error t = t @ [LogError (thrown_text error)]"
  by (cases error) (simp_all add: logError_def)

text \<open>
  Claim C7. For every thunk run under \<open>handleError\<close>, and every asynchronous thunk
  under \<open>handleErrorAsync\<close>: when the thunk completes without throwing, the very next
  and last call is \<open>cli.endProcessOk\<close>; when it throws any value, the text of that value
  (the message of an \<open>Error\<close>, \<open>String(value)\<close> of anything else) is written to stderr and
  \<open>cli.endProcessError\<close> is the next and last call: nothing else follows.
\<close>

theorem handleError_ends_process:
  "(fn t = (Returns, t1) \<longrightarrow>
      handleError fn t = (Returns, t1 @ [EndProcessOk]) \<and>
      handleErrorAsync fn t = (Returns, t1 @ [EndProcessOk])) \<and>
   (fn t = (Throws error, t1) \<longrightarrow>
      handleError fn t = (Returns, t1 @ [LogError (thrown_text error), EndProcessError]) \<and>
      handleErrorAsync fn t = (Returns, t1 @ [LogError (thrown_text error), EndProcessError]))"
  by (simp add: handleError_def handleErrorAsync_def endProcessOk_def endProcessError_def
      handleErrorOutput_thrown_text)

theorem handleError_ends_process_witness:
  "handleError thunk_increment [] = (Returns, [EndProcessOk]) \<and>
   handleErrorAsync thunk_increment [] = (Returns, [EndProcessOk]) \<and>
   handleError thunk_throw_string [] = (Returns, [LogError ''nix geht'', EndProcessError]) \<and>
   handleErrorAsync thunk_throw_string [] =
     (Returns, [LogError ''nix geht'', EndProcessError]) \<and>
   handleError thunk_throw_invalid_path [] =
     (Returns,
      [LogError (''invalid path mapping detected: sheriff: src/main.ts. ''
                   @ ''Please verify that the path exists.''),
       EndProcessError])"
  using handleError_ends_process [of thunk_increment "[]" "[]"]
    handleError_ends_process [of thunk_throw_string "[]" "[]" "Value ''nix geht''"]
    handleError_ends_process
      [of thunk_throw_invalid_path "[]" "[]" "InvalidPathError ''sheriff'' ''src/main.ts''"]
  by (simp add: thunk_increment_def thunk_throw_string_def thunk_throw_invalid_path_def
      InvalidPathError_def)

section \<open>Properties of main\<close>

lemma main_builtin_dispatch:
  assumes "isBuiltinCommand (Some cmd)"
  shows "main env (cmd # args) t =
     (if cmd = ''init'' then handleError (init_command env) t
      else if cmd = ''verify'' then handleError (verify_command env args) t
      else if cmd = ''list'' then handleError (list_command env args) t
      else if cmd = ''export'' then handleError (exportData_command env args) t
      else version_command env t)"
  using assms by (auto simp add: main_def isBuiltinCommand_def BUILTIN_COMMANDS_def)

lemma main_plugin_dispatch:
  assumes "\<not> isBuiltinCommand (Some cmd)"
  shows "main env (cmd # args) t =
     handleErrorAsync (handlePluginOrHelp env (Some cmd) args (getPlugins env)) t"
  using assms by (simp add: main_def)

text \<open>
  Claim C8. When the first argument is one of \<open>init\<close>, \<open>verify\<close>, \<open>list\<close>, \<open>export\<close> and
  \<open>version\<close>, \<open>main\<close> runs the built-in command of that name and nothing else, and what
  it does is the same for every list of registered plugins: no plugin's \<open>execute\<close> has
  a part in it, whatever the plugins are called.
\<close>

theorem main_builtin_ignores_plugins:
  assumes "cmd \<in> {''init'', ''verify'', ''list'', ''export'', ''version''}"
  shows "main (env\<lparr>getPlugins := registered\<rparr>) (cmd # args) t =
     (if cmd = ''init'' then handleError (init_command env) t
      else if cmd = ''verify'' then handleError (verify_command env args) t
      else if cmd = ''list'' then handleError (list_command env args) t
      else if cmd = ''export'' then handleError (exportData_command env args) t
      else version_command env t)"
proof -
  have "isBuiltinCommand (Some cmd)"
    using assms by (simp add: isBuiltinCommand_def BUILTIN_COMMANDS_def)
  then show ?thesis
    by (simp add: main_builtin_dispatch)
qed

theorem main_builtin_ignores_plugins_witness:
  "main (test_env [plugin_named ''verify'' marking_execute]) [''verify'', ''src/main.ts''] [] =
     (Returns, [Log ''No issues found'', EndProcessOk])"
proof -
  have "main ((test_env [])\<lparr>getPlugins := [plugin_named ''verify'' marking_execute]\<rparr>)
          (''verify'' # [''src/main.ts'']) [] =
        handleError (verify_command (test_env []) [''src/main.ts'']) []"
    using main_builtin_ignores_plugins
      [where cmd = "''verify''" and env = "test_env []"
         and registered = "[plugin_named ''verify'' marking_execute]"
         and args = "[''src/main.ts'']" and t = "[]"]
    by simp
  then show ?thesis
    by (simp add: test_env_def handleError_def endProcessOk_def log_def)
qed

text \<open>
  The contrast: a command that is not built in and names a registered plugin runs that
  plugin's \<open>execute\<close>.
\<close>

lemma main_runs_matching_plugin:
  "main (test_env [plugin_named ''reporter'' marking_execute]) [''reporter''] [] =
     (Returns, [Log ''plugin executed'', EndProcessOk])"
  by (simp add: main_def isBuiltinCommand_def BUILTIN_COMMANDS_def test_env_def
      handlePluginOrHelp_def plugin_named_def executePlugin_def findPluginByName_def
      validatePlugin_def trim_def isWhiteSpace_def marking_execute_def handleErrorAsync_def
      endProcessOk_def log_def)

section \<open>Properties of entry resolution\<close>

lemma length_Object_entries:
  "length (Object_entries r) = length r"
  by (simp add: Object_entries_def sum_length_filter_compl)

lemma Object_entries_Nil_iff:
  "(Object_entries r = []) = (r = [])"
  using length_Object_entries [of r] by (metis length_0_conv)

lemma length_Object_keys:
  "length (Object_keys r) = length r"
  by (simp add: Object_keys_def length_Object_entries)




lemma Object_entries_no_index:
  assumes "\<forall>kv \<in> set r. \<not> is_array_index (fst kv)"
  shows "Object_entries r = r"
  using assms by (simp add: Object_entries_def filter_id_conv filter_empty_conv)









lemma project_names_no_index:
  "\<not> is_array_index ''project-i''" "\<not> is_array_index ''project-ii''"
  "\<not> is_array_index ''project-b''" "\<not> is_array_index ''app''"
  by (simp_all add: is_array_index_def is_digit_def)















text \<open>
  Claim C4 at a configuration that declares \<open>entryFile\<close> and leaves \<open>entryPoints\<close>
  undefined: the test for conflicting declarations applies \<open>isEmptyRecord\<close> to
  \<open>undefined\<close>, and the call ends with a \<open>TypeError\<close> instead of the entry of \<open>entryFile\<close>.
  The later test of the same value is guarded (\<open>sheriffConfig.entryPoints &&\<close>).
\<close>

theorem getEntryFromCliOrConfig_entryFile_only:
  "getEntryFromCliOrConfig (config_env config_entryFile_only) None False =
     Inl (TypeError ''Cannot convert undefined or null to object'')"
  by (simp add: getEntryFromCliOrConfig_def entryFromConfig_def truthy_entry_def config_env_def
      config_entryFile_only_def isEmptyRecord_def length_Object_keys)

text \<open>At the same configuration the earlier version of the file returns the entry.\<close>

lemma getEntryFromCliOrConfig_earlier_entryFile_only:
  "getEntryFromCliOrConfig_earlier (config_env config_entryFile_only) None False =
     Inr [\<lparr>projectName = ''default'', entry = Path ''src/main.ts''\<rparr>]"
  by (simp add: getEntryFromCliOrConfig_earlier_def config_env_def config_entryFile_only_def
      processEntryFile_def DEFAULT_PROJECT_NAME_def)

lemma getEntryFromCliOrConfig_entryPoints_only:
  "getEntryFromCliOrConfig (config_env config_entryPoints_only) None False =
     Inr [\<lparr>projectName = ''project-i'', entry = Path ''projects/project-i/src/main.ts''\<rparr>,
          \<lparr>projectName = ''project-ii'', entry = Path ''projects/project-ii/src/main.ts''\<rparr>]"
  by (simp add: getEntryFromCliOrConfig_def entryFromConfig_def truthy_entry_def config_env_def
      config_entryPoints_only_def isEmptyRecord_def length_Object_keys processEntryFile_def
      Object_entries_no_index project_names_no_index)

section \<open>Properties of parseStringOrRecord\<close>

lemma parseStringOrRecord_eq:
  "parseStringOrRecord JSON_parse input =
     Inr (if startsWith (trim input) ''{'' \<and> endsWith (trim input) ''}'' then
            (case accepted JSON_parse (trim input) of
               Some parsed \<Rightarrow> AsRecord parsed
             | None \<Rightarrow>
                 (case accepted JSON_parse (replace_single_quotes (trim input)) of
                    Some parsed \<Rightarrow> AsRecord parsed
                  | None \<Rightarrow> AsString input))
          else AsString input)"
  by (simp add: parseStringOrRecord_def accepted_def try_catch_def Let_def
      split: sum.splits option.splits)

lemma startsWith_replace_single_quotes:
  "startsWith (replace_single_quotes s) ''{'' = startsWith s ''{''"
  by (cases s) (auto simp add: startsWith_def replace_single_quotes_def sq_def dq_def)

lemma accepted_object:
  assumes "\<And>text parsed. JSON_parse text = Inr parsed \<Longrightarrow> startsWith text ''{''
             \<Longrightarrow> \<exists>kvs. parsed = JObject kvs"
    and "accepted JSON_parse text = Some parsed"
    and "startsWith text ''{''"
  shows "\<exists>kvs. parsed = JObject kvs \<and> list_all is_string (map snd kvs)"
proof -
  from assms(2) have p: "JSON_parse text = Inr parsed" and a: "allValuesAreStrings parsed"
    by (auto simp add: accepted_def split: sum.splits if_splits)
  from assms(1) [OF p assms(3)] obtain kvs where "parsed = JObject kvs"
    by blast
  with a show ?thesis
    by (simp add: allValuesAreStrings_def)
qed

text \<open>
  Claim C9. \<open>parseStringOrRecord\<close> never throws. It returns a parsed value only when the
  trimmed input starts with \<open>{\<close> and ends with \<open>}\<close> and \<open>JSON.parse\<close> accepts it with string
  values only, directly or, failing that, after every single quote became a double
  quote; in every other case, malformed JSON and values that are not strings included,
  it returns the input unchanged. Since \<open>JSON.parse\<close> turns a text that starts with \<open>{\<close>
  into an object and never into an array, what it returns is the input or a record all
  of whose values are strings.
\<close>

theorem parseStringOrRecord_total:
  assumes objects: "\<forall>text parsed. JSON_parse text = Inr parsed \<longrightarrow> startsWith text ''{''
             \<longrightarrow> (\<exists>kvs. parsed = JObject kvs)"
  shows "(\<exists>r. parseStringOrRecord JSON_parse input = Inr r \<and>
            (r = AsString input \<or>
             (\<exists>kvs. r = AsRecord (JObject kvs) \<and> list_all is_string (map snd kvs)))) \<and>
         parseStringOrRecord JSON_parse input =
           Inr (if startsWith (trim input) ''{'' \<and> endsWith (trim input) ''}'' then
                  (case accepted JSON_parse (trim input) of
                     Some parsed \<Rightarrow> AsRecord parsed
                   | None \<Rightarrow>
                       (case accepted JSON_parse (replace_single_quotes (trim input)) of
                          Some parsed \<Rightarrow> AsRecord parsed
                        | None \<Rightarrow> AsString input))
                else AsString input)"
proof
  have assms: "\<And>text parsed. JSON_parse text = Inr parsed \<Longrightarrow> startsWith text ''{''
             \<Longrightarrow> \<exists>kvs. parsed = JObject kvs"
    using objects by blast
  show "\<exists>r. parseStringOrRecord JSON_parse input = Inr r \<and>
            (r = AsString input \<or>
             (\<exists>kvs. r = AsRecord (JObject kvs) \<and> list_all is_string (map snd kvs)))"
  proof (cases "startsWith (trim input) ''{'' \<and> endsWith (trim input) ''}''")
    case False
    then show ?thesis
      by (auto simp add: parseStringOrRecord_eq)
  next
    case True
    then have s1: "startsWith (trim input) ''{''"
      and s2: "startsWith (replace_single_quotes (trim input)) ''{''"
      by (simp_all add: startsWith_replace_single_quotes)
    show ?thesis
    proof (cases "accepted JSON_parse (trim input)")
      case (Some parsed)
      from accepted_object [OF assms Some s1] True Some show ?thesis
        by (auto simp add: parseStringOrRecord_eq)
    next
      case None
      show ?thesis
      proof (cases "accepted JSON_parse (replace_single_quotes (trim input))")
        case n2: None
        with None True show ?thesis
          by (auto simp add: parseStringOrRecord_eq)
      next
        case (Some parsed)
        from accepted_object [OF assms Some s2] True None Some show ?thesis
          by (auto simp add: parseStringOrRecord_eq)
      qed
    qed
  qed
  show "parseStringOrRecord JSON_parse input =
           Inr (if startsWith (trim input) ''{'' \<and> endsWith (trim input) ''}'' then
                  (case accepted JSON_parse (trim input) of
                     Some parsed \<Rightarrow> AsRecord parsed
                   | None \<Rightarrow>
                       (case accepted JSON_parse (replace_single_quotes (trim input)) of
                          Some parsed \<Rightarrow> AsRecord parsed
                        | None \<Rightarrow> AsString input))
                else AsString input)"
    by (rule parseStringOrRecord_eq)
qed

lemma sample_JSON_parse_objects:
  assumes "sample_JSON_parse text = Inr parsed"
  shows "\<exists>kvs. parsed = JObject kvs"
  using assms by (auto simp add: sample_JSON_parse_def split: if_splits)

lemma trim_single_quoted_app_text:
  "trim single_quoted_app_text =
     ''{'' @ [sq] @ ''app'' @ [sq] @ '': '' @ [sq] @ ''src/main.ts'' @ [sq] @ ''}''"
  by (simp add: trim_def single_quoted_app_text_def isWhiteSpace_def sq_def)

lemma single_quoted_app_text_braces:
  "startsWith (trim single_quoted_app_text) ''{'' \<and> endsWith (trim single_quoted_app_text) ''}''"
  by (simp add: trim_single_quoted_app_text startsWith_def endsWith_def)

lemma single_quoted_app_text_rejected:
  "accepted sample_JSON_parse (trim single_quoted_app_text) = None"
  by (simp add: trim_single_quoted_app_text accepted_def sample_JSON_parse_def app_text_def
      count_text_def sq_def dq_def)

lemma single_quoted_app_text_replaced:
  "replace_single_quotes (trim single_quoted_app_text) = app_text"
  by (simp add: trim_single_quoted_app_text replace_single_quotes_def app_text_def sq_def dq_def)

lemma app_text_accepted:
  "accepted sample_JSON_parse app_text = Some (JObject [(''app'', JString ''src/main.ts'')])"
  by (simp add: accepted_def sample_JSON_parse_def allValuesAreStrings_def)

lemma count_text_braces:
  "trim count_text = count_text \<and> startsWith count_text ''{'' \<and> endsWith count_text ''}''"
  by (simp add: trim_def isWhiteSpace_def count_text_def startsWith_def endsWith_def dq_def)

lemma count_text_rejected:
  "accepted sample_JSON_parse count_text = None \<and>
   accepted sample_JSON_parse (replace_single_quotes count_text) = None"
  by (simp add: accepted_def sample_JSON_parse_def allValuesAreStrings_def
      replace_single_quotes_def app_text_def count_text_def sq_def dq_def)

theorem parseStringOrRecord_total_witness:
  "parseStringOrRecord sample_JSON_parse single_quoted_app_text =
     Inr (AsRecord (JObject [(''app'', JString ''src/main.ts'')])) \<and>
   parseStringOrRecord sample_JSON_parse count_text = Inr (AsString count_text) \<and>
   parseStringOrRecord sample_JSON_parse ''src/main.ts'' = Inr (AsString ''src/main.ts'')"
proof -
  have objects: "\<forall>text parsed. sample_JSON_parse text = Inr parsed
      \<longrightarrow> startsWith text ''{'' \<longrightarrow> (\<exists>kvs. parsed = JObject kvs)"
    using sample_JSON_parse_objects by blast
  have a: "parseStringOrRecord sample_JSON_parse single_quoted_app_text =
     Inr (AsRecord (JObject [(''app'', JString ''src/main.ts'')]))"
    using conjunct2 [OF parseStringOrRecord_total
        [where JSON_parse = sample_JSON_parse and input = single_quoted_app_text, OF objects]]
    by (simp add: single_quoted_app_text_braces single_quoted_app_text_rejected
        single_quoted_app_text_replaced app_text_accepted)
  have b: "parseStringOrRecord sample_JSON_parse count_text = Inr (AsString count_text)"
    using conjunct2 [OF parseStringOrRecord_total
        [where JSON_parse = sample_JSON_parse and input = count_text, OF objects]]
    by (simp add: count_text_braces count_text_rejected)
  have c: "parseStringOrRecord sample_JSON_parse ''src/main.ts'' =
      Inr (AsString ''src/main.ts'')"
    using conjunct2 [OF parseStringOrRecord_total
        [where JSON_parse = sample_JSON_parse and input = "''src/main.ts''", OF objects]]
    by (simp add: trim_def isWhiteSpace_def startsWith_def endsWith_def)
  from a b c show ?thesis by simp
qed

section \<open>Properties of the plugin API\<close>

lemma verify_files_pairs:
  "verify_files env info ps acc = verify_pairs env (map (Pair info) ps) acc"
  by (induction ps arbitrary: acc) (auto split: sum.splits)

lemma verify_pairs_append:
  "verify_pairs env (xs @ ys) acc =
     (case verify_pairs env xs acc of Inl err \<Rightarrow> Inl err | Inr a \<Rightarrow> verify_pairs env ys a)"
  by (induction xs arbitrary: acc) (auto split: sum.splits)

lemma verify_entries_visited:
  "verify_entries env es acc = verify_pairs env (visited env es) acc"
proof (induction es arbitrary: acc)
  case Nil
  then show ?case by (simp add: visited_def)
next
  case (Cons e es)
  have v: "visited env (e # es) =
      map (Pair (projectInfo e)) (traverseFileInfo env (projectInfo e)) @ visited env es"
    by (simp add: visited_def)
  show ?case
    by (simp add: v verify_pairs_append verify_files_pairs Cons.IH split: sum.splits)
qed

lemma merge_locals_assoc:
  "merge_locals (merge_locals a b) c = merge_locals a (merge_locals b c)"
  by (simp add: merge_locals_def add.assoc)

lemma merge_locals_no_violations:
  "merge_locals a no_violations = a" "merge_locals no_violations a = a"
  by (simp_all add: merge_locals_def no_violations_def)

lemma record_file_merge:
  "record_file env p found acc = merge_locals acc (record_file env p found no_violations)"
  by (cases found) (simp add: record_file_def merge_locals_def no_violations_def
      map_add_def fun_eq_iff)

lemma verify_pairs_merge:
  "verify_pairs env w acc =
     (case verify_pairs env w no_violations of
        Inl err \<Rightarrow> Inl err
      | Inr r \<Rightarrow> Inr (merge_locals acc r))"
proof (induction w arbitrary: acc)
  case Nil
  then show ?case by (simp add: merge_locals_no_violations)
next
  case (Cons x w)
  obtain info p where x: "x = (info, p)" by (cases x)
  show ?case
  proof (cases "check_file env info p")
    case (Inl err)
    then show ?thesis by (simp add: x)
  next
    case (Inr found)
    have a: "verify_pairs env (x # w) acc =
        (case verify_pairs env w no_violations of
           Inl err \<Rightarrow> Inl err
         | Inr r \<Rightarrow> Inr (merge_locals (record_file env p found acc) r))"
      using Cons.IH [of "record_file env p found acc"] by (simp add: x Inr)
    have b: "verify_pairs env (x # w) no_violations =
        (case verify_pairs env w no_violations of
           Inl err \<Rightarrow> Inl err
         | Inr r \<Rightarrow> Inr (merge_locals (record_file env p found no_violations) r))"
      using Cons.IH [of "record_file env p found no_violations"] by (simp add: x Inr)
    show ?thesis
      unfolding a b
      by (cases "verify_pairs env w no_violations")
        (simp_all add: record_file_merge [of env p found acc] merge_locals_assoc)
  qed
qed

lemma verify_pairs_returns_iff:
  "(\<exists>acc'. verify_pairs env w acc = Inr acc') =
     (\<forall>x \<in> set w. \<exists>found. check_file env (fst x) (snd x) = Inr found)"
proof (induction w arbitrary: acc)
  case Nil
  then show ?case by simp
next
  case (Cons x w)
  obtain info p where x: "x = (info, p)" by (cases x)
  show ?case
  proof (cases "check_file env info p")
    case (Inl err)
    then show ?thesis by (simp add: x)
  next
    case (Inr found)
    then show ?thesis
      using Cons.IH [of "record_file env p found acc"] by (simp add: x)
  qed
qed

lemma record_file_counts:
  "encapsulationViolationCount (record_file env p found acc) =
     encapsulationViolationCount acc + length (fst found)"
  "dependencyRuleViolationCount (record_file env p found acc) =
     dependencyRuleViolationCount acc + length (snd found)"
  by (cases found; simp add: record_file_def)+

lemma verify_pairs_counts_grow:
  assumes "verify_pairs env w acc = Inr acc'"
  shows "encapsulationViolationCount acc \<le> encapsulationViolationCount acc'
     \<and> dependencyRuleViolationCount acc \<le> dependencyRuleViolationCount acc'"
  using assms
proof (induction w arbitrary: acc)
  case Nil
  then show ?case by simp
next
  case (Cons x w)
  obtain info p where x: "x = (info, p)" by (cases x)
  from Cons.prems obtain found where f: "check_file env info p = Inr found"
    and r: "verify_pairs env w (record_file env p found acc) = Inr acc'"
    by (auto simp add: x split: sum.splits)
  from Cons.IH [OF r] show ?case
    by (auto simp add: record_file_counts)
qed

lemma verify_pairs_counts_same:
  assumes "verify_pairs env w acc = Inr acc'"
  shows "(encapsulationViolationCount acc' = encapsulationViolationCount acc
          \<and> dependencyRuleViolationCount acc' = dependencyRuleViolationCount acc) =
         (\<forall>(info, p) \<in> set w. check_file env info p = Inr ([], []))"
  using assms
proof (induction w arbitrary: acc)
  case Nil
  then show ?case by simp
next
  case (Cons x w)
  obtain info p where x: "x = (info, p)" by (cases x)
  from Cons.prems obtain found where f: "check_file env info p = Inr found"
    and r: "verify_pairs env w (record_file env p found acc) = Inr acc'"
    by (auto simp add: x split: sum.splits)
  note grow = verify_pairs_counts_grow [OF r]
  note ih = Cons.IH [OF r]
  show ?case
  proof (cases "found = ([], [])")
    case True
    then have "record_file env p found acc = acc"
      by (simp add: record_file_def)
    with ih f True show ?thesis
      by (simp add: x)
  next
    case False
    then have "0 < length (fst found) + length (snd found)"
      by (cases found) auto
    moreover from grow have
      "encapsulationViolationCount acc + length (fst found)
         \<le> encapsulationViolationCount acc'"
      "dependencyRuleViolationCount acc + length (snd found)
         \<le> dependencyRuleViolationCount acc'"
      by (simp_all add: record_file_counts)
    ultimately have "\<not> (encapsulationViolationCount acc' = encapsulationViolationCount acc
        \<and> dependencyRuleViolationCount acc' = dependencyRuleViolationCount acc)"
      by linarith
    with f False show ?thesis
      by (simp add: x)
  qed
qed

lemma check_file_empty:
  "(check_file env info p = Inr ([], [])) =
     (hasEncapsulationViolations env p info = Inr []
        \<and> checkForDependencyRuleViolation env p info = Inr [])"
  by (auto simp add: check_file_def split: sum.splits)

lemma check_file_returns:
  "(\<exists>found. check_file env info p = Inr found) =
     ((\<exists>encapsulations. hasEncapsulationViolations env p info = Inr encapsulations)
        \<and> (\<exists>vs. checkForDependencyRuleViolation env p info = Inr vs))"
  by (auto simp add: check_file_def split: sum.splits)

lemma set_visited:
  "set (visited env es) =
     {(projectInfo e, p) | e p. e \<in> set es \<and> p \<in> set (traverseFileInfo env (projectInfo e))}"
  by (auto simp add: visited_def)

lemma verifyEntries_Inr:
  "(verifyEntries env es = Inr r) =
     (\<exists>acc. verify_pairs env (visited env es) no_violations = Inr acc \<and>
        r = \<lparr>encapsulationViolationCount = encapsulationViolationCount acc,
               dependencyRuleViolationCount = dependencyRuleViolationCount acc,
               filesWithViolationsCount = filesWithViolationsCount acc,
               violations = violations acc,
               success = (encapsulationViolationCount acc = 0
                            \<and> dependencyRuleViolationCount acc = 0)\<rparr>)"
  by (auto simp add: verifyEntries_def verify_entries_visited split: sum.splits)

text \<open>
  Claim C1. Whenever \<open>verifyForPlugin\<close> returns a result, \<open>success\<close> is true exactly
  when both violation counts of the result are zero, and that is exactly when no file
  that any project entry's traversal meets has an encapsulation violation or a
  dependency-rule violation. It returns a result whenever entry resolution and the
  checks of all these files return.
\<close>

theorem verifyForPlugin_success:
  "(verifyForPlugin env entryFileArg = Inr r \<longrightarrow>
      success r = (encapsulationViolationCount r = 0 \<and> dependencyRuleViolationCount r = 0)) \<and>
   (verifyForPlugin env entryFileArg = Inr r \<longrightarrow>
      success r =
        (\<exists>es. getEntriesFromCliOrConfig env entryFileArg = Inr es \<and>
           (\<forall>e \<in> set es. \<forall>p \<in> set (traverseFileInfo env (projectInfo e)).
              hasEncapsulationViolations env p (projectInfo e) = Inr []
                \<and> checkForDependencyRuleViolation env p (projectInfo e) = Inr []))) \<and>
   (getEntriesFromCliOrConfig env entryFileArg = Inr es \<longrightarrow>
      (\<forall>e \<in> set es. \<forall>p \<in> set (traverseFileInfo env (projectInfo e)).
         (\<exists>encapsulations. hasEncapsulationViolations env p (projectInfo e) = Inr encapsulations)
           \<and> (\<exists>vs. checkForDependencyRuleViolation env p (projectInfo e) = Inr vs)) \<longrightarrow>
      (\<exists>r'. verifyForPlugin env entryFileArg = Inr r'))"
proof (intro conjI impI)
  assume v: "verifyForPlugin env entryFileArg = Inr r"
  then obtain es where es: "getEntriesFromCliOrConfig env entryFileArg = Inr es"
    and ve: "verifyEntries env es = Inr r"
    by (auto simp add: verifyForPlugin_def split: sum.splits)
  from ve obtain acc where acc: "verify_pairs env (visited env es) no_violations = Inr acc"
    and r: "r = \<lparr>encapsulationViolationCount = encapsulationViolationCount acc,
               dependencyRuleViolationCount = dependencyRuleViolationCount acc,
               filesWithViolationsCount = filesWithViolationsCount acc,
               violations = violations acc,
               success = (encapsulationViolationCount acc = 0
                            \<and> dependencyRuleViolationCount acc = 0)\<rparr>"
    by (auto simp add: verifyEntries_Inr)
  show s: "success r =
      (encapsulationViolationCount r = 0 \<and> dependencyRuleViolationCount r = 0)"
    by (simp add: r)
  have "(encapsulationViolationCount acc = 0 \<and> dependencyRuleViolationCount acc = 0) =
      (\<forall>(info, p) \<in> set (visited env es). check_file env info p = Inr ([], []))"
    using verify_pairs_counts_same [OF acc] by (simp add: no_violations_def)
  also have "\<dots> = (\<forall>e \<in> set es. \<forall>p \<in> set (traverseFileInfo env (projectInfo e)).
              hasEncapsulationViolations env p (projectInfo e) = Inr []
                \<and> checkForDependencyRuleViolation env p (projectInfo e) = Inr [])"
    by (auto simp add: set_visited check_file_empty)
  finally show "success r =
        (\<exists>es. getEntriesFromCliOrConfig env entryFileArg = Inr es \<and>
           (\<forall>e \<in> set es. \<forall>p \<in> set (traverseFileInfo env (projectInfo e)).
              hasEncapsulationViolations env p (projectInfo e) = Inr []
                \<and> checkForDependencyRuleViolation env p (projectInfo e) = Inr []))"
    by (simp add: r es)
next
  assume es: "getEntriesFromCliOrConfig env entryFileArg = Inr es"
  assume all: "\<forall>e \<in> set es. \<forall>p \<in> set (traverseFileInfo env (projectInfo e)).
         (\<exists>encapsulations. hasEncapsulationViolations env p (projectInfo e) = Inr encapsulations)
           \<and> (\<exists>vs. checkForDependencyRuleViolation env p (projectInfo e) = Inr vs)"
  have "\<forall>x \<in> set (visited env es). \<exists>found. check_file env (fst x) (snd x) = Inr found"
  proof
    fix x
    assume "x \<in> set (visited env es)"
    then obtain e p where x: "x = (projectInfo e, p)" and e: "e \<in> set es"
      and p: "p \<in> set (traverseFileInfo env (projectInfo e))"
      by (auto simp add: set_visited)
    from all e p obtain encapsulations vs
      where "hasEncapsulationViolations env p (projectInfo e) = Inr encapsulations"
        and "checkForDependencyRuleViolation env p (projectInfo e) = Inr vs"
      by blast
    then have "check_file env (projectInfo e) p = Inr (encapsulations, vs)"
      by (simp add: check_file_def)
    then show "\<exists>found. check_file env (fst x) (snd x) = Inr found"
      by (simp add: x)
  qed
  then obtain acc where "verify_pairs env (visited env es) no_violations = Inr acc"
    using verify_pairs_returns_iff [of env "visited env es" no_violations] by blast
  then show "\<exists>r'. verifyForPlugin env entryFileArg = Inr r'"
    by (simp add: verifyForPlugin_def es verifyEntries_def verify_entries_visited)
qed

lemma clean_env_result:
  "verifyForPlugin clean_env None =
     Inr \<lparr>encapsulationViolationCount = 0, dependencyRuleViolationCount = 0,
          filesWithViolationsCount = 0, violations = Map.empty, success = True\<rparr>"
  by (simp add: verifyForPlugin_def verifyEntries_def clean_env_def scenario_env_def
      FileSystem.extend_def verify_env.fields_def project_fs_def check_file_def
      record_file_def no_violations_def)

theorem verifyForPlugin_success_witness:
  "(\<exists>r. verifyForPlugin clean_env None = Inr r \<and> success r
        \<and> encapsulationViolationCount r = 0 \<and> dependencyRuleViolationCount r = 0)"
  using verifyForPlugin_success
    [where env = clean_env and entryFileArg = None
       and r = "\<lparr>encapsulationViolationCount = 0, dependencyRuleViolationCount = 0,
          filesWithViolationsCount = 0, violations = Map.empty, success = True\<rparr>"]
    clean_env_result
  by simp













lemma verify_pairs_dom:
  assumes "verify_pairs env w acc = Inr acc'"
  shows "dom (violations acc') \<subseteq>
     dom (violations acc) \<union> (\<lambda>x. relativeTo env (cwd env) (snd x)) ` set w"
  using assms
proof (induction w arbitrary: acc)
  case Nil
  then show ?case by simp
next
  case (Cons x w)
  obtain info p where x: "x = (info, p)" by (cases x)
  from Cons.prems obtain f where f: "check_file env info p = Inr f"
    and r: "verify_pairs env w (record_file env p f acc) = Inr acc'"
    by (auto simp add: x split: sum.splits)
  have "dom (violations (record_file env p f acc)) \<subseteq>
      dom (violations acc) \<union> {relativeTo env (cwd env) p}"
    by (cases f) (auto simp add: record_file_def)
  with Cons.IH [OF r] show ?case
    by (auto simp add: x)
qed

lemma visited_single:
  "visited env [e] = map (Pair (projectInfo e)) (traverseFileInfo env (projectInfo e))"
  by (simp add: visited_def)

lemma visited_two:
  "visited env [e1, e2] = visited env [e1] @ visited env [e2]"
  by (simp add: visited_def)

text \<open>
  Claim C2, as amended. When no relative path of a file that the first entry point's
  traversal meets is the relative path of a file that the second one's meets (the
  two module graphs are isolated), and each entry point verified alone gives a result,
  then the two verified together give a result whose violation record is the two
  records put together: at every file of either entry point it holds exactly what that
  entry point's own run records, and the three counts are the sums of the two runs'
  counts. The tags play no part in this.
\<close>

theorem verifyEntries_isolated:
  assumes "verifyEntries env [e1] = Inr r1"
    and "verifyEntries env [e2] = Inr r2"
    and "relativeTo env (cwd env) ` set (traverseFileInfo env (projectInfo e1))
           \<inter> relativeTo env (cwd env) ` set (traverseFileInfo env (projectInfo e2)) = {}"
  shows "\<exists>r. verifyEntries env [e1, e2] = Inr r \<and>
           violations r = violations r1 ++ violations r2 \<and>
           (\<forall>p \<in> set (traverseFileInfo env (projectInfo e1)).
              violations r (relativeTo env (cwd env) p)
                = violations r1 (relativeTo env (cwd env) p)) \<and>
           (\<forall>p \<in> set (traverseFileInfo env (projectInfo e2)).
              violations r (relativeTo env (cwd env) p)
                = violations r2 (relativeTo env (cwd env) p)) \<and>
           encapsulationViolationCount r =
             encapsulationViolationCount r1 + encapsulationViolationCount r2 \<and>
           dependencyRuleViolationCount r =
             dependencyRuleViolationCount r1 + dependencyRuleViolationCount r2 \<and>
           filesWithViolationsCount r =
             filesWithViolationsCount r1 + filesWithViolationsCount r2"
proof -
  from assms(1) obtain a1 where a1: "verify_pairs env (visited env [e1]) no_violations = Inr a1"
    and r1: "violations r1 = violations a1"
      "encapsulationViolationCount r1 = encapsulationViolationCount a1"
      "dependencyRuleViolationCount r1 = dependencyRuleViolationCount a1"
      "filesWithViolationsCount r1 = filesWithViolationsCount a1"
    by (auto simp add: verifyEntries_Inr)
  from assms(2) obtain a2 where a2: "verify_pairs env (visited env [e2]) no_violations = Inr a2"
    and r2: "violations r2 = violations a2"
      "encapsulationViolationCount r2 = encapsulationViolationCount a2"
      "dependencyRuleViolationCount r2 = dependencyRuleViolationCount a2"
      "filesWithViolationsCount r2 = filesWithViolationsCount a2"
    by (auto simp add: verifyEntries_Inr)
  have "verify_pairs env (visited env [e2]) a1 = Inr (merge_locals a1 a2)"
    using verify_pairs_merge [of env "visited env [e2]" a1] a2 by simp
  then have both: "verify_pairs env (visited env [e1, e2]) no_violations
      = Inr (merge_locals a1 a2)"
    by (simp add: visited_two verify_pairs_append a1)
  define r where "r =
      \<lparr>encapsulationViolationCount = encapsulationViolationCount (merge_locals a1 a2),
       dependencyRuleViolationCount = dependencyRuleViolationCount (merge_locals a1 a2),
       filesWithViolationsCount = filesWithViolationsCount (merge_locals a1 a2),
       violations = violations (merge_locals a1 a2),
       success = (encapsulationViolationCount (merge_locals a1 a2) = 0
                    \<and> dependencyRuleViolationCount (merge_locals a1 a2) = 0)\<rparr>"
  have res: "verifyEntries env [e1, e2] = Inr r"
    unfolding verifyEntries_Inr r_def using both by blast
  have v: "violations r = violations r1 ++ violations r2"
    by (simp add: r_def merge_locals_def r1 r2)
  have d1: "dom (violations r1)
      \<subseteq> relativeTo env (cwd env) ` set (traverseFileInfo env (projectInfo e1))"
    using verify_pairs_dom [OF a1]
    by (auto simp add: r1 no_violations_def visited_single)
  have d2: "dom (violations r2)
      \<subseteq> relativeTo env (cwd env) ` set (traverseFileInfo env (projectInfo e2))"
    using verify_pairs_dom [OF a2]
    by (auto simp add: r2 no_violations_def visited_single)
  have p1: "\<forall>p \<in> set (traverseFileInfo env (projectInfo e1)).
      violations r (relativeTo env (cwd env) p) = violations r1 (relativeTo env (cwd env) p)"
  proof
    fix p
    assume "p \<in> set (traverseFileInfo env (projectInfo e1))"
    with assms(3) d2 have "relativeTo env (cwd env) p \<notin> dom (violations r2)"
      by blast
    then show "violations r (relativeTo env (cwd env) p)
        = violations r1 (relativeTo env (cwd env) p)"
      by (simp add: v map_add_dom_app_simps)
  qed
  have p2: "\<forall>p \<in> set (traverseFileInfo env (projectInfo e2)).
      violations r (relativeTo env (cwd env) p) = violations r2 (relativeTo env (cwd env) p)"
  proof
    fix p
    assume "p \<in> set (traverseFileInfo env (projectInfo e2))"
    with assms(3) d1 have "relativeTo env (cwd env) p \<notin> dom (violations r1)"
      by blast
    then have "violations r1 (relativeTo env (cwd env) p) = None"
      by (simp add: domIff)
    then show "violations r (relativeTo env (cwd env) p)
        = violations r2 (relativeTo env (cwd env) p)"
      by (simp add: v map_add_def split: option.splits)
  qed
  have c: "encapsulationViolationCount r =
             encapsulationViolationCount r1 + encapsulationViolationCount r2"
    "dependencyRuleViolationCount r =
             dependencyRuleViolationCount r1 + dependencyRuleViolationCount r2"
    "filesWithViolationsCount r =
             filesWithViolationsCount r1 + filesWithViolationsCount r2"
    by (simp_all add: r_def merge_locals_def r1 r2)
  from res v p1 p2 c show ?thesis
    by blast
qed

lemma isolated_env_entry_a:
  "verifyEntries isolated_env [entry_a] =
     Inr \<lparr>encapsulationViolationCount = 1, dependencyRuleViolationCount = 0,
          filesWithViolationsCount = 1,
          violations = [''apps/a/util.ts'' \<mapsto>
            \<lparr>encapsulationViolations = [''../feature/internal/x''],
             dependencyRuleViolations = []\<rparr>],
          success = False\<rparr>"
  by (simp add: verifyEntries_def isolated_env_def shared_env_def entry_a_def
      FileSystem.extend_def verify_env.fields_def project_fs_def check_file_def
      record_file_def no_violations_def relative_below_def depViolationInfos_def)

lemma isolated_env_entry_b:
  "verifyEntries isolated_env [entry_b] =
     Inr \<lparr>encapsulationViolationCount = 0, dependencyRuleViolationCount = 0,
          filesWithViolationsCount = 0, violations = Map.empty, success = True\<rparr>"
  by (simp add: verifyEntries_def isolated_env_def shared_env_def entry_b_def
      FileSystem.extend_def verify_env.fields_def project_fs_def check_file_def
      record_file_def no_violations_def relative_below_def depViolationInfos_def)

lemma isolated_env_disjoint:
  "relativeTo isolated_env (cwd isolated_env)
       ` set (traverseFileInfo isolated_env (projectInfo entry_a))
     \<inter> relativeTo isolated_env (cwd isolated_env)
       ` set (traverseFileInfo isolated_env (projectInfo entry_b)) = {}"
  by (simp add: isolated_env_def shared_env_def entry_a_def entry_b_def
      FileSystem.extend_def verify_env.fields_def project_fs_def relative_below_def)

theorem verifyEntries_isolated_witness:
  "\<exists>r. verifyEntries isolated_env [entry_a, entry_b] = Inr r \<and>
       violations r ''apps/a/util.ts'' =
         Some \<lparr>encapsulationViolations = [''../feature/internal/x''],
               dependencyRuleViolations = []\<rparr> \<and>
       encapsulationViolationCount r = 1 \<and>
       filesWithViolationsCount r = 1"
  using verifyEntries_isolated
    [OF isolated_env_entry_a isolated_env_entry_b isolated_env_disjoint]
  by auto

text \<open>
  Claim C2 as stated fails when the two entry points reach a common file. The file
  \<open>libs/shared/util.ts\<close> is met by both traversals of \<open>shared_env\<close> and has a deep import
  in the first project only. Verified alone, the second entry point records nothing
  for it; verified after the first, the result holds the first project's violation
  under the file's path.
\<close>

theorem verifyEntries_shared_file:
  "''/project/libs/shared/util.ts''
     \<in> set (traverseFileInfo shared_env (projectInfo entry_b)) \<and>
   relativeTo shared_env (cwd shared_env) ''/project/libs/shared/util.ts''
     = ''libs/shared/util.ts'' \<and>
   violations_at (verifyEntries shared_env [entry_b]) ''libs/shared/util.ts'' = None \<and>
   violations_at (verifyEntries shared_env [entry_a, entry_b]) ''libs/shared/util.ts'' =
     Some \<lparr>encapsulationViolations = [''../feature/internal/x''],
           dependencyRuleViolations = []\<rparr>"
  by (simp add: violations_at_def verifyEntries_def shared_env_def entry_a_def entry_b_def
      FileSystem.extend_def verify_env.fields_def project_fs_def check_file_def
      record_file_def no_violations_def relative_below_def depViolationInfos_def)

text \<open>
  Claim C10. Whatever entry points are configured, \<open>getProjectDataForPlugin\<close> asks
  \<open>getProjectData\<close> for the first entry alone: its answer is the project data of the
  first entry's file under the first entry's project name, and it is the same as if
  the first entry were the only one.
\<close>

theorem getProjectDataForPlugin_first_entry:
  assumes "getEntryFilesFromCliOrConfig env entryFileArg = Inr (e # others)"
  shows "getProjectDataForPlugin env entryFileArg options =
           getProjectDataFn env (join env (cwd env) (fileEntryFile e))
             \<lparr>skipImportResolution =
                (case options of None \<Rightarrow> None | Some opts \<Rightarrow> skipImportResolution opts),
              dataProjectName = fileProjectName e\<rparr> \<and>
         getProjectDataForPlugin
             (env\<lparr>getEntryFilesFromCliOrConfig := (\<lambda>arg. Inr [e])\<rparr>) entryFileArg options =
           getProjectDataForPlugin env entryFileArg options"
  using assms by (simp add: getProjectDataForPlugin_def)

theorem getProjectDataForPlugin_first_entry_witness:
  "getProjectDataForPlugin
     (data_env_of
        [\<lparr>fileProjectName = ''project-i'', fileEntryFile = ''projects/project-i/src/main.ts''\<rparr>,
         \<lparr>fileProjectName = ''project-ii'', fileEntryFile = ''projects/project-ii/src/main.ts''\<rparr>])
     None None =
   Inr (''/project/projects/project-i/src/main.ts'',
        \<lparr>skipImportResolution = None, dataProjectName = ''project-i''\<rparr>)"
  using getProjectDataForPlugin_first_entry
    [where env = "data_env_of
        [\<lparr>fileProjectName = ''project-i'', fileEntryFile = ''projects/project-i/src/main.ts''\<rparr>,
         \<lparr>fileProjectName = ''project-ii'', fileEntryFile = ''projects/project-ii/src/main.ts''\<rparr>]"
       and entryFileArg = None and options = None
       and e = "\<lparr>fileProjectName = ''project-i'',
                  fileEntryFile = ''projects/project-i/src/main.ts''\<rparr>"
       and others = "[\<lparr>fileProjectName = ''project-ii'',
                        fileEntryFile = ''projects/project-ii/src/main.ts''\<rparr>]"]
  by (simp add: data_env_of_def FileSystem.extend_def data_env.fields_def project_fs_def)

end
